theory Spec2Isabelle
  imports Main "HOL-Library.Multiset" "HOL-Library.Char_ord" "HOL-Library.List_Lexorder"
begin

section \<open>Python values held by the handlers of main.py\<close>

text \<open>
  The chat backend of \<^verbatim>\<open>main.py\<close> has two handlers: \<^verbatim>\<open>list_messages\<close>
  (GET /api/messages) and \<^verbatim>\<open>create_message\<close> (POST /api/messages). Both run inside
  \<^verbatim>\<open>try: ... except Exception as e: raise HTTPException(status_code=500, detail=str(e))\<close>.
  Python strings are \<open>string\<close>; comparison of strings is the lexicographic order on
  characters, as Python compares code points (all strings built here are ASCII).
\<close>

subsection \<open>Timestamps and \<^verbatim>\<open>datetime.isoformat\<close>\<close>

text \<open>
  A naive \<^verbatim>\<open>datetime\<close> (no tzinfo), which is what the Mongo driver decodes a stored date to.
\<close>

record datetime =
  year :: nat
  month :: nat
  day :: nat
  hour :: nat
  minute :: nat
  second :: nat
  microsecond :: nat

definition digit :: "nat \<Rightarrow> char" where
  "digit n = ''0123456789'' ! (n mod 10)"

text \<open>Decimal digits of a natural number, as \<^verbatim>\<open>str(n)\<close> and \<^verbatim>\<open>%d\<close> print them.\<close>

fun str_nat :: "nat \<Rightarrow> string" where
  "str_nat n = (if n < 10 then [digit n] else str_nat (n div 10) @ [digit n])"

declare str_nat.simps [simp del]

text \<open>\<^verbatim>\<open>"%0wd" % n\<close> for \<open>n \<ge> 0\<close>: zero padding up to width \<open>w\<close>, never truncating.\<close>

definition fmt_0d :: "nat \<Rightarrow> nat \<Rightarrow> string" where
  "fmt_0d w n = replicate (w - length (str_nat n)) (CHR ''0'') @ str_nat n"

text \<open>
  \<^verbatim>\<open>_format_time(hh, mm, ss, us, 'auto')\<close>: the fraction is printed only when the
  microsecond is not zero.
\<close>

definition format_time :: "nat \<Rightarrow> nat \<Rightarrow> nat \<Rightarrow> nat \<Rightarrow> string" where
  "format_time hh mm ss us =
     fmt_0d 2 hh @ '':'' @ fmt_0d 2 mm @ '':'' @ fmt_0d 2 ss @
     (if us \<noteq> 0 then ''.'' @ fmt_0d 6 us else [])"

text \<open>\<^verbatim>\<open>datetime.isoformat(sep)\<close> of a naive datetime; \<^verbatim>\<open>isoformat()\<close> has \<open>sep = 'T'\<close>.\<close>

definition isoformat_sep :: "char \<Rightarrow> datetime \<Rightarrow> string" where
  "isoformat_sep sep t =
     fmt_0d 4 (year t) @ ''-'' @ fmt_0d 2 (month t) @ ''-'' @ fmt_0d 2 (day t) @ [sep] @
     format_time (hour t) (minute t) (second t) (microsecond t)"

definition isoformat :: "datetime \<Rightarrow> string" where
  "isoformat t = isoformat_sep (CHR ''T'') t"

subsection \<open>Field values of a stored document\<close>

datatype pyval =
    PNone
  | PBool bool
  | PInt int
  | PStr string
  | PDatetime datetime
  | PObjectId string

text \<open>Python truth value: \<^verbatim>\<open>None\<close>, \<^verbatim>\<open>False\<close>, \<^verbatim>\<open>0\<close> and \<^verbatim>\<open>""\<close> are falsy;
  a datetime and an ObjectId are always truthy.\<close>

fun truthy :: "pyval \<Rightarrow> bool" where
  "truthy PNone = False"
| "truthy (PBool b) = b"
| "truthy (PInt i) = (i \<noteq> 0)"
| "truthy (PStr s) = (s \<noteq> [])"
| "truthy (PDatetime t) = True"
| "truthy (PObjectId h) = True"

definition str_int :: "int \<Rightarrow> string" where
  "str_int i = (if i < 0 then ''-'' @ str_nat (nat (- i)) else str_nat (nat i))"

text \<open>\<^verbatim>\<open>str(v)\<close>; an ObjectId prints as its hexadecimal string, a datetime as
  \<^verbatim>\<open>isoformat(sep=' ')\<close>.\<close>

fun str :: "pyval \<Rightarrow> string" where
  "str PNone = ''None''"
| "str (PBool b) = (if b then ''True'' else ''False'')"
| "str (PInt i) = str_int i"
| "str (PStr s) = s"
| "str (PDatetime t) = isoformat_sep (CHR '' '') t"
| "str (PObjectId h) = h"

fun type_name :: "pyval \<Rightarrow> string" where
  "type_name PNone = ''NoneType''"
| "type_name (PBool b) = ''bool''"
| "type_name (PInt i) = ''int''"
| "type_name (PStr s) = ''str''"
| "type_name (PDatetime t) = ''datetime.datetime''"
| "type_name (PObjectId h) = ''ObjectId''"

subsection \<open>Exceptions\<close>

datatype exn =
    AttributeError string
  | OSError string
  | Exception string

fun str_exn :: "exn \<Rightarrow> string" where
  "str_exn (AttributeError m) = m"
| "str_exn (OSError m) = m"
| "str_exn (Exception m) = m"

text \<open>\<^verbatim>\<open>HTTPException(status_code, detail)\<close>.\<close>

datatype http_exception = HTTPException nat string



subsection \<open>Documents and the document store\<close>

text \<open>A raw record is a Python dict; \<^verbatim>\<open>d.get(k)\<close> is \<^verbatim>\<open>None\<close> for a missing key.\<close>

type_synonym doc = "string \<rightharpoonup> pyval"

definition get :: "doc \<Rightarrow> string \<Rightarrow> pyval" where
  "get d k = (case d k of None \<Rightarrow> PNone | Some v \<Rightarrow> v)"

text \<open>
  The store: either unavailable (every call raises the given exception) or a family of
  collections, each a list of documents in the store's own (native) order.
\<close>

type_synonym store = "exn + (string \<Rightarrow> doc list)"

definition matches :: "(string \<times> pyval) list \<Rightarrow> doc \<Rightarrow> bool" where
  "matches filter_dict d = list_all (\<lambda>(k, v). d k = Some v) filter_dict"

text \<open>
  Modelled from the spec: \<^verbatim>\<open>get_documents(collection_name, filter, limit)\<close> of
  \<^verbatim>\<open>database.py\<close>, which is not among the sources. The spec: it returns a list of raw
  records of the collection matching the filter, bounded by \<open>limit\<close>, and the store's own
  ordering decides which \<open>limit\<close> documents are selected; a store failure raises. A limit
  below zero selects nothing here (the spec is silent on it).
\<close>

definition get_documents :: "store \<Rightarrow> string \<Rightarrow> (string \<times> pyval) list \<Rightarrow> int \<Rightarrow> exn + doc list" where
  "get_documents st collection_name filter_dict limit =
     (case st of
        Inl e \<Rightarrow> Inl e
      | Inr colls \<Rightarrow> Inr (take (nat limit) (filter (matches filter_dict) (colls collection_name))))"

section \<open>The Listing Handler: \<^verbatim>\<open>list_messages\<close>\<close>

text \<open>One entry of \<^verbatim>\<open>out\<close>: the dict with the six keys of lines 51 to 58.\<close>

record message_out =
  o_id :: "string option"
  o_username :: pyval
  o_text :: pyval
  o_file_url :: pyval
  o_content_type :: pyval
  o_created_at :: "string option"

text \<open>
  \<^verbatim>\<open>d.get("created_at").isoformat() if d.get("created_at") else None\<close>: a truthy value
  that is not a datetime has no \<^verbatim>\<open>isoformat\<close> and raises AttributeError.
\<close>

definition created_at_iso :: "pyval \<Rightarrow> exn + string option" where
  "created_at_iso v =
     (if truthy v then
        (case v of
           PDatetime t \<Rightarrow> Inr (Some (isoformat t))
         | _ \<Rightarrow> Inl (AttributeError
             ([CHR 0x27] @ type_name v @ [CHR 0x27] @ '' object has no attribute '' @
              [CHR 0x27] @ ''isoformat'' @ [CHR 0x27])))
      else Inr None)"

text \<open>The body of the \<^verbatim>\<open>for d in docs\<close> loop, lines 50 to 58, for one document.\<close>

definition normalize_doc :: "doc \<Rightarrow> exn + message_out" where
  "normalize_doc d =
     (let d_id = (if truthy (get d ''_id'') then Some (str (get d ''_id'')) else None) in
      case created_at_iso (get d ''created_at'') of
        Inl e \<Rightarrow> Inl e
      | Inr c \<Rightarrow> Inr \<lparr> o_id = d_id,
                      o_username = get d ''username'',
                      o_text = get d ''text'',
                      o_file_url = get d ''file_url'',
                      o_content_type = get d ''content_type'',
                      o_created_at = c \<rparr>)"

text \<open>The loop: \<^verbatim>\<open>out.append(...)\<close> for each document in turn; an exception leaves it.\<close>

fun normalize_docs :: "doc list \<Rightarrow> message_out list \<Rightarrow> exn + message_out list" where
  "normalize_docs [] out = Inr out"
| "normalize_docs (d # docs) out =
     (case normalize_doc d of
        Inl e \<Rightarrow> Inl e
      | Inr m \<Rightarrow> normalize_docs docs (out @ [m]))"

text \<open>The sort key of line 60: \<^verbatim>\<open>x.get("created_at") or ""\<close>.\<close>

definition created_key :: "message_out \<Rightarrow> string" where
  "created_key x = (case o_created_at x of None \<Rightarrow> [] | Some s \<Rightarrow> if s \<noteq> [] then s else [])"

record list_response =
  items :: "message_out list"

text \<open>
  Lines 47 to 61, from the fetched \<open>docs\<close> on. Python's \<^verbatim>\<open>sorted\<close> is stable, as
  \<open>sort_key\<close> is.
\<close>

definition list_messages_docs :: "doc list \<Rightarrow> exn + list_response" where
  "list_messages_docs docs =
     (case normalize_docs docs [] of
        Inl e \<Rightarrow> Inl e
      | Inr out \<Rightarrow> Inr \<lparr> items = sort_key created_key out \<rparr>)"

text \<open>The handler: the query of line 46, the body, and the \<^verbatim>\<open>except\<close> of lines 62, 63.\<close>

definition list_messages :: "store \<Rightarrow> int \<Rightarrow> http_exception + list_response" where
  "list_messages st limit =
     (case (case get_documents st ''message'' [] limit of
              Inl e \<Rightarrow> Inl e
            | Inr docs \<Rightarrow> list_messages_docs docs) of
        Inl e \<Rightarrow> Inl (HTTPException 500 (str_exn e))
      | Inr r \<Rightarrow> Inr r)"

section \<open>The Ingestion Handler: \<^verbatim>\<open>create_message\<close>\<close>

subsection \<open>\<^verbatim>\<open>os.path.splitext\<close> and \<^verbatim>\<open>os.path.join\<close> (posixpath)\<close>

text \<open>\<^verbatim>\<open>p.rfind(c)\<close>: the index of the last occurrence of \<open>c\<close>, or \<open>-1\<close>.\<close>

primrec rfind_from :: "string \<Rightarrow> char \<Rightarrow> int \<Rightarrow> int \<Rightarrow> int" where
  "rfind_from [] c i found = found"
| "rfind_from (x # xs) c i found = rfind_from xs c (i + 1) (if x = c then i else found)"

definition rfind :: "string \<Rightarrow> char \<Rightarrow> int" where
  "rfind p c = rfind_from p c 0 (- 1)"

text \<open>
  The loop of \<^verbatim>\<open>genericpath._splitext\<close> that skips leading dots:
  \<^verbatim>\<open>while filenameIndex < dotIndex:
      if p[filenameIndex:filenameIndex+1] != extsep: return p[:dotIndex], p[dotIndex:]
      filenameIndex += 1\<close>
  and the final \<^verbatim>\<open>return p, p[:0]\<close>.
\<close>

function splitext_loop :: "string \<Rightarrow> int \<Rightarrow> int \<Rightarrow> string \<times> string" where
  "splitext_loop p filenameIndex dotIndex =
     (if filenameIndex < dotIndex then
        (if take 1 (drop (nat filenameIndex) p) \<noteq> ''.''
         then (take (nat dotIndex) p, drop (nat dotIndex) p)
         else splitext_loop p (filenameIndex + 1) dotIndex)
      else (p, []))"
  by pat_completeness auto
termination
  by (relation "measure (\<lambda>(p, filenameIndex, dotIndex). nat (dotIndex - filenameIndex))") auto

declare splitext_loop.simps [simp del]

text \<open>\<^verbatim>\<open>posixpath.splitext(p)\<close>: separator \<open>/\<close>, no alternative separator, extension
  separator \<open>.\<close>.\<close>

definition splitext :: "string \<Rightarrow> string \<times> string" where
  "splitext p =
     (let sepIndex = rfind p (CHR ''/'');
          dotIndex = rfind p (CHR ''.'')
      in if dotIndex > sepIndex then splitext_loop p (sepIndex + 1) dotIndex else (p, []))"

text \<open>\<^verbatim>\<open>posixpath.join(a, b)\<close> for two components.\<close>

definition join :: "string \<Rightarrow> string \<Rightarrow> string" where
  "join a b =
     (if take 1 b = ''/'' then b
      else if a = [] \<or> last a = CHR ''/'' then a @ b
      else a @ ''/'' @ b)"

subsection \<open>The environment and the world the handler acts on\<close>

text \<open>\<^verbatim>\<open>UploadFile\<close>: the filename and the declared content type may be absent;
  \<open>uf_content\<close> is what \<^verbatim>\<open>await file.read()\<close> returns.\<close>

record upload_file =
  uf_filename :: "string option"
  uf_content_type :: "string option"
  uf_content :: string

text \<open>
  What the handler reads from outside during one request: the working directory of the
  process (for \<^verbatim>\<open>UPLOAD_DIR\<close>), the token \<^verbatim>\<open>uuid4().hex\<close>, whether opening or
  writing the destination raises, and the identifier and the clock the store uses for the
  next insert.
\<close>

record env =
  cwd :: string
  uuid_hex :: string
  write_error :: "exn option"
  new_id :: string
  now :: datetime

text \<open>The files on disk (path to contents) and the document store.\<close>

record world =
  files :: "string \<rightharpoonup> string"
  db :: store

definition UPLOAD_DIR :: "env \<Rightarrow> string" where
  "UPLOAD_DIR en = join (cwd en) ''uploads''"

text \<open>\<^verbatim>\<open>with open(dest_path, "wb") as f: f.write(data)\<close>: either it raises, or the file
  holds the data afterwards. What a failed write leaves on disk is not modelled.\<close>

definition write_file :: "env \<Rightarrow> (string \<rightharpoonup> string) \<Rightarrow> string \<Rightarrow> string \<Rightarrow> exn + (string \<rightharpoonup> string)" where
  "write_file en fs dest_path data =
     (case write_error en of
        Some e \<Rightarrow> Inl e
      | None \<Rightarrow> Inr (fs(dest_path \<mapsto> data)))"

subsection \<open>The Message entity and \<^verbatim>\<open>create_document\<close>\<close>

text \<open>
  Modelled from the spec: the class \<^verbatim>\<open>Message\<close> of \<^verbatim>\<open>schemas.py\<close>, which is not
  among the sources: the entity with the fields \<open>username\<close>, \<open>text\<close>, \<open>file_url\<close> and
  \<open>content_type\<close> that the handler gathers (\<open>id\<close> and \<open>created_at\<close> are given by the store).
\<close>

record message =
  m_username :: string
  m_text :: "string option"
  m_file_url :: "string option"
  m_content_type :: "string option"

definition Message :: "string \<Rightarrow> string option \<Rightarrow> string option \<Rightarrow> string option \<Rightarrow> message" where
  "Message username text file_url content_type =
     \<lparr> m_username = username, m_text = text, m_file_url = file_url,
       m_content_type = content_type \<rparr>"

definition opt_val :: "string option \<Rightarrow> pyval" where
  "opt_val x = (case x of None \<Rightarrow> PNone | Some s \<Rightarrow> PStr s)"

text \<open>The stored record of a message, with the identifier and the creation time the
  store gives it.\<close>

definition message_doc :: "env \<Rightarrow> message \<Rightarrow> doc" where
  "message_doc en msg =
     [''_id'' \<mapsto> PObjectId (new_id en),
      ''username'' \<mapsto> PStr (m_username msg),
      ''text'' \<mapsto> opt_val (m_text msg),
      ''file_url'' \<mapsto> opt_val (m_file_url msg),
      ''content_type'' \<mapsto> opt_val (m_content_type msg),
      ''created_at'' \<mapsto> PDatetime (now en)]"

text \<open>
  Modelled from the spec: \<^verbatim>\<open>create_document(collection_name, entity) -> id\<close> of
  \<^verbatim>\<open>database.py\<close>, which is not among the sources. The spec: it persists the entity to
  the collection, the store assigns the identifier and sets \<open>created_at\<close> once at creation,
  and the identifier is returned; a store failure raises.
\<close>

definition create_document :: "env \<Rightarrow> store \<Rightarrow> string \<Rightarrow> message \<Rightarrow> exn + (string \<times> store)" where
  "create_document en st collection_name entity =
     (case st of
        Inl e \<Rightarrow> Inl e
      | Inr colls \<Rightarrow>
          Inr (new_id en,
               Inr (colls(collection_name := colls collection_name @ [message_doc en entity]))))"

subsection \<open>The handler\<close>

text \<open>\<^verbatim>\<open>file.filename or ""\<close>.\<close>

definition filename_or_empty :: "upload_file \<Rightarrow> string" where
  "filename_or_empty f = (case uf_filename f of None \<Rightarrow> [] | Some n \<Rightarrow> if n \<noteq> [] then n else [])"

text \<open>Line 78: \<^verbatim>\<open>fname = f"{uuid4().hex}{ext}"\<close> with the \<open>ext\<close> of line 77.\<close>

definition stored_name :: "env \<Rightarrow> upload_file \<Rightarrow> string" where
  "stored_name en f = uuid_hex en @ snd (splitext (filename_or_empty f))"

text \<open>
  Lines 73 to 83: \<open>file_url\<close>, \<open>content_type\<close> and the files on disk after the block
  \<^verbatim>\<open>if file is not None\<close>.
\<close>

definition save_upload ::
  "env \<Rightarrow> (string \<rightharpoonup> string) \<Rightarrow> upload_file option \<Rightarrow>
     exn + (string option \<times> string option \<times> (string \<rightharpoonup> string))" where
  "save_upload en fs file =
     (case file of
        None \<Rightarrow> Inr (None, None, fs)
      | Some f \<Rightarrow>
          (let fname = stored_name en f;
               dest_path = join (UPLOAD_DIR en) fname
           in case write_file en fs dest_path (uf_content f) of
                Inl e \<Rightarrow> Inl e
              | Inr fs' \<Rightarrow> Inr (Some (''/uploads/'' @ fname), uf_content_type f, fs')))"


text \<open>
  Lines 73 to 85: the \<^verbatim>\<open>Message\<close> built from what was gathered, and the files on disk
  at that point.
\<close>

definition build_message ::
  "env \<Rightarrow> (string \<rightharpoonup> string) \<Rightarrow> string \<Rightarrow> string option \<Rightarrow> upload_file option \<Rightarrow>
     exn + (message \<times> (string \<rightharpoonup> string))" where
  "build_message en fs username text file =
     (case save_upload en fs file of
        Inl e \<Rightarrow> Inl e
      | Inr (file_url, content_type, fs') \<Rightarrow>
          Inr (Message username text file_url content_type, fs'))"

record create_response =
  r_id :: string
  r_ok :: bool

text \<open>
  The handler, lines 72 to 89. The result comes with the world it leaves: a file written
  before a failing insert stays on disk.
\<close>

definition create_message ::
  "env \<Rightarrow> world \<Rightarrow> string \<Rightarrow> string option \<Rightarrow> upload_file option \<Rightarrow>
     (http_exception + create_response) \<times> world" where
  "create_message en w username text file =
     (case build_message en (files w) username text file of
        Inl e \<Rightarrow> (Inl (HTTPException 500 (str_exn e)), w)
      | Inr (msg, fs') \<Rightarrow>
          (case create_document en (db w) ''message'' msg of
             Inl e \<Rightarrow> (Inl (HTTPException 500 (str_exn e)), w\<lparr>files := fs'\<rparr>)
           | Inr (inserted_id, st') \<Rightarrow>
               (Inr \<lparr> r_id = inserted_id, r_ok = True \<rparr>, \<lparr> files = fs', db = st' \<rparr>)))"

section \<open>Request binding of the two routes\<close>

text \<open>
  FastAPI binds the request to the parameters declared in the handler's signature before
  it calls the handler, so a binding failure is outside the handler's \<^verbatim>\<open>try\<close>: FastAPI
  answers it with its \<^verbatim>\<open>RequestValidationError\<close> (status 422, the location of the field in
  the detail), and the \<^verbatim>\<open>except\<close> clause is not involved.
\<close>

datatype failure =
    RequestValidationError "string list"
  | Raised http_exception


text \<open>The form of a POST: each part may be missing.\<close>

record message_form =
  f_username :: "string option"
  f_text :: "string option"
  f_file :: "upload_file option"

text \<open>
  The value of a form field as FastAPI reads it from the form data: a field that is
  missing, or present with the empty string, has no value (its check is
  \<^verbatim>\<open>value is None or (isinstance(field_info, params.Form) and value == "")\<close>). For
  \<^verbatim>\<open>Form(...)\<close> (required) no value is the validation error "field required"; for
  \<^verbatim>\<open>Form(None)\<close> it is the default \<^verbatim>\<open>None\<close>.
\<close>

definition form_value :: "string option \<Rightarrow> string option" where
  "form_value v = (case v of None \<Rightarrow> None | Some s \<Rightarrow> if s = [] then None else Some s)"

text \<open>POST /api/messages: \<^verbatim>\<open>username: str = Form(...)\<close>,
  \<^verbatim>\<open>text: Optional[str] = Form(None)\<close>, \<^verbatim>\<open>file: Optional[UploadFile] = File(None)\<close>.\<close>

definition post_api_messages ::
  "env \<Rightarrow> world \<Rightarrow> message_form \<Rightarrow> (failure + create_response) \<times> world" where
  "post_api_messages en w form =
     (case form_value (f_username form) of
        None \<Rightarrow> (Inl (RequestValidationError [''body'', ''username'']), w)
      | Some username \<Rightarrow>
          (case create_message en w username (form_value (f_text form)) (f_file form) of
             (Inl h, w') \<Rightarrow> (Inl (Raised h), w')
           | (Inr r, w') \<Rightarrow> (Inr r, w')))"

text \<open>GET /api/messages: \<^verbatim>\<open>limit: int = 50\<close>, a query parameter that may be absent.\<close>

definition limit_or_default :: "int option \<Rightarrow> int" where
  "limit_or_default limit = (case limit of None \<Rightarrow> 50 | Some n \<Rightarrow> n)"

definition get_api_messages :: "store \<Rightarrow> int option \<Rightarrow> failure + list_response" where
  "get_api_messages st limit =
     (case list_messages st (limit_or_default limit) of
        Inl h \<Rightarrow> Inl (Raised h)
      | Inr r \<Rightarrow> Inr r)"

section \<open>Reference notions and sample data\<close>

text \<open>A stored \<open>created_at\<close> is a timestamp, or is missing or falsy.\<close>

definition timestamp_or_falsy :: "doc \<Rightarrow> bool" where
  "timestamp_or_falsy d =
     (case get d ''created_at'' of PDatetime t \<Rightarrow> True | v \<Rightarrow> \<not> truthy v)"

text \<open>
  The page the spec compares the handler with: the \<open>limit\<close> most recent messages, that is
  sort by time first and keep the last \<open>limit\<close> afterwards.
\<close>

definition most_recent_page :: "message_out list \<Rightarrow> int \<Rightarrow> message_out list" where
  "most_recent_page ms limit =
     (let s = sort_key created_key ms in drop (length s - nat limit) s)"

text \<open>Sample documents: a message stored at 09:30:\<open>s\<close> on 2024-05-17, and one without
  \<open>created_at\<close>.\<close>

definition sample_doc :: "string \<Rightarrow> nat \<Rightarrow> doc" where
  "sample_doc i s =
     [''_id'' \<mapsto> PObjectId i, ''username'' \<mapsto> PStr ''alice'', ''text'' \<mapsto> PStr ''hi'',
      ''created_at'' \<mapsto> PDatetime \<lparr> year = 2024, month = 5, day = 17, hour = 9,
                                     minute = 30, second = s, microsecond = 0 \<rparr>]"

definition sample_out :: "string \<Rightarrow> string \<Rightarrow> message_out" where
  "sample_out i c =
     \<lparr> o_id = Some i, o_username = PStr ''alice'', o_text = PStr ''hi'', o_file_url = PNone,
       o_content_type = PNone, o_created_at = Some c \<rparr>"

definition undated_doc :: doc where
  "undated_doc = [''username'' \<mapsto> PStr ''bob'', ''_id'' \<mapsto> PInt 0]"

text \<open>A store whose native order is not chronological, and an empty one.\<close>

definition shuffled_store :: "string \<Rightarrow> doc list" where
  "shuffled_store c =
     (if c = ''message''
      then [sample_doc ''b'' 2, sample_doc ''a'' 1, sample_doc ''c'' 3]
      else [])"

definition empty_store :: "string \<Rightarrow> doc list" where
  "empty_store c = []"

definition sample_env :: env where
  "sample_env =
     \<lparr> cwd = ''/app'', uuid_hex = ''0123456789abcdef0123456789abcdef'', write_error = None,
       new_id = ''65f0c0ffee'',
       now = \<lparr> year = 2024, month = 5, day = 17, hour = 9, minute = 30, second = 4,
               microsecond = 0 \<rparr> \<rparr>"

definition sample_world :: world where
  "sample_world = \<lparr> files = Map.empty, db = Inr empty_store \<rparr>"

definition sample_upload :: upload_file where
  "sample_upload =
     \<lparr> uf_filename = Some ''photo.PNG'', uf_content_type = Some ''image/png'',
       uf_content = ''PNGDATA'' \<rparr>"


definition sample_form :: message_form where
  "sample_form = \<lparr> f_username = Some ''alice'', f_text = Some ''hi'', f_file = None \<rparr>"

definition empty_username_form :: message_form where
  "empty_username_form = \<lparr> f_username = Some [], f_text = Some ''hi'', f_file = None \<rparr>"




text \<open>The sample world after alice's text message has been stored in the sample
  environment.\<close>

definition sample_world_after :: world where
  "sample_world_after =
     \<lparr> files = Map.empty,
       db = Inr (empty_store(''message'' := empty_store ''message'' @
                  [message_doc sample_env (Message ''alice'' (Some ''hi'') None None)])) \<rparr>"

definition sample_response :: create_response where
  "sample_response = \<lparr> r_id = ''65f0c0ffee'', r_ok = True \<rparr>"

text \<open>A record whose \<open>created_at\<close> was stored as text, and a store that holds it.\<close>

definition text_dated_doc :: doc where
  "text_dated_doc =
     [''_id'' \<mapsto> PObjectId ''d'', ''username'' \<mapsto> PStr ''carol'',
      ''created_at'' \<mapsto> PStr ''2024-05-17'']"

definition text_dated_store :: "string \<Rightarrow> doc list" where
  "text_dated_store c = (if c = ''message'' then [sample_doc ''a'' 1, text_dated_doc] else [])"


section \<open>Facts about the listing\<close>

lemma isoformat_nonempty: "isoformat t \<noteq> []"
  by (simp add: isoformat_def isoformat_sep_def)

lemma created_at_iso_Inr:
  "created_at_iso v = Inr c \<longleftrightarrow>
     (\<not> truthy v \<and> c = None) \<or> (\<exists>t. v = PDatetime t \<and> c = Some (isoformat t))"
  by (cases v) (auto simp: created_at_iso_def)

lemma created_at_iso_wellformed:
  "timestamp_or_falsy d \<Longrightarrow>
     created_at_iso (get d ''created_at'') =
       Inr (case get d ''created_at'' of PDatetime t \<Rightarrow> Some (isoformat t) | _ \<Rightarrow> None)"
  by (cases "get d ''created_at''") (auto simp: timestamp_or_falsy_def created_at_iso_def)

lemma normalize_doc_created_at:
  "normalize_doc d = Inr m \<Longrightarrow>
     o_created_at m = None \<or> (\<exists>t. o_created_at m = Some (isoformat t))"
  by (auto simp: normalize_doc_def Let_def created_at_iso_Inr split: sum.splits)

lemma normalize_doc_total: "timestamp_or_falsy d \<Longrightarrow> \<exists>m. normalize_doc d = Inr m"
  by (simp add: normalize_doc_def Let_def created_at_iso_wellformed)

lemma normalize_docs_Inr:
  "normalize_docs docs acc = Inr out \<longleftrightarrow>
     (\<exists>ms. map normalize_doc docs = map Inr ms \<and> out = acc @ ms)"
proof (induction docs arbitrary: acc out)
  case Nil
  then show ?case by auto
next
  case (Cons d docs)
  show ?case
  proof (cases "normalize_doc d")
    case (Inl e)
    then show ?thesis by (auto simp: map_eq_Cons_conv)
  next
    case (Inr m)
    then show ?thesis
      by (auto simp: Cons.IH map_eq_Cons_conv Cons_eq_map_conv)
  qed
qed

lemma normalize_all_total:
  "\<forall>d\<in>set docs. timestamp_or_falsy d \<Longrightarrow> \<exists>ms. map normalize_doc docs = map Inr ms"
proof (induction docs)
  case Nil
  then show ?case by simp
next
  case (Cons d docs)
  then obtain ms where ms: "map normalize_doc docs = map Inr ms" by auto
  from Cons.prems obtain m where "normalize_doc d = Inr m"
    using normalize_doc_total by auto
  with ms have "map normalize_doc (d # docs) = map Inr (m # ms)" by simp
  then show ?case by blast
qed

lemma created_key_None: "o_created_at x = None \<Longrightarrow> created_key x = []"
  by (simp add: created_key_def)

lemma created_key_Some: "o_created_at x = Some s \<Longrightarrow> created_key x = s"
  by (simp add: created_key_def)

text \<open>In a list sorted by the key, an entry without timestamp cannot follow one with a
  timestamp, because an ISO string is never empty.\<close>

lemma sorted_none_first:
  assumes srt: "sorted (map created_key xs)"
    and iso: "\<forall>x\<in>set xs. o_created_at x = None \<or> (\<exists>t. o_created_at x = Some (isoformat t))"
    and i: "i < length xs" and j: "j < length xs"
    and ni: "o_created_at (xs ! i) = None" and sj: "o_created_at (xs ! j) \<noteq> None"
  shows "i < j"
proof (rule ccontr)
  assume "\<not> i < j"
  with ni sj have ji: "j < i" by (cases "i = j") auto
  from srt ji i have "created_key (xs ! j) \<le> created_key (xs ! i)"
    by (simp add: sorted_iff_nth_mono)
  with ni have "created_key (xs ! j) = []" by (simp add: created_key_None)
  moreover from iso j sj obtain t where "o_created_at (xs ! j) = Some (isoformat t)"
    by (metis nth_mem)
  ultimately show False by (simp add: created_key_Some isoformat_nonempty)
qed

lemma created_key_eq:
  "created_key x = (case o_created_at x of None \<Rightarrow> [] | Some s \<Rightarrow> s)"
  by (simp add: created_key_def split: option.splits)

lemma normalize_doc_Inr_iff:
  "(\<exists>m. normalize_doc d = Inr m) \<longleftrightarrow> timestamp_or_falsy d"
proof
  assume "\<exists>m. normalize_doc d = Inr m"
  then obtain c where "created_at_iso (get d ''created_at'') = Inr c"
    by (auto simp: normalize_doc_def Let_def split: sum.splits)
  then show "timestamp_or_falsy d"
    by (auto simp: created_at_iso_Inr timestamp_or_falsy_def split: pyval.splits)
next
  assume "timestamp_or_falsy d"
  then show "\<exists>m. normalize_doc d = Inr m" by (rule normalize_doc_total)
qed

lemma normalize_doc_created_at_of:
  "normalize_doc d = Inr m \<Longrightarrow>
     o_created_at m =
       (case get d ''created_at'' of PDatetime t \<Rightarrow> Some (isoformat t) | _ \<Rightarrow> None)"
  by (cases "get d ''created_at''")
     (auto simp: normalize_doc_def Let_def created_at_iso_def split: sum.splits if_splits)

lemma normalize_all_created_at:
  "map normalize_doc docs = map Inr ms \<Longrightarrow>
     map o_created_at ms =
       map (\<lambda>d. case get d ''created_at'' of PDatetime t \<Rightarrow> Some (isoformat t) | _ \<Rightarrow> None) docs"
proof (induction docs arbitrary: ms)
  case Nil
  then show ?case by simp
next
  case (Cons d docs)
  then obtain m ms' where ms: "ms = m # ms'" "normalize_doc d = Inr m"
    "map normalize_doc docs = map Inr ms'"
    by (auto simp: Cons_eq_map_conv)
  with Cons.IH [of ms'] show ?case by (simp add: normalize_doc_created_at_of)
qed

text \<open>The handler answers with a page exactly when every \<open>created_at\<close> is a timestamp,
  or missing or falsy.\<close>

lemma list_messages_docs_answers_iff:
  "(\<exists>r. list_messages_docs docs = Inr r) \<longleftrightarrow> (\<forall>d\<in>set docs. timestamp_or_falsy d)"
proof
  assume "\<exists>r. list_messages_docs docs = Inr r"
  then obtain out where "normalize_docs docs [] = Inr out"
    by (auto simp: list_messages_docs_def split: sum.splits)
  then obtain ms where ms: "map normalize_doc docs = map Inr ms"
    by (auto simp: normalize_docs_Inr)
  show "\<forall>d\<in>set docs. timestamp_or_falsy d"
  proof
    fix d assume "d \<in> set docs"
    then have "normalize_doc d \<in> set (map Inr ms)" using ms by (metis image_eqI set_map)
    then have "\<exists>m. normalize_doc d = Inr m" by auto
    then show "timestamp_or_falsy d" by (simp add: normalize_doc_Inr_iff)
  qed
next
  assume "\<forall>d\<in>set docs. timestamp_or_falsy d"
  then obtain ms where "map normalize_doc docs = map Inr ms"
    using normalize_all_total by blast
  then have "normalize_docs docs [] = Inr ms" by (simp add: normalize_docs_Inr)
  then show "\<exists>r. list_messages_docs docs = Inr r" by (simp add: list_messages_docs_def)
qed

text \<open>
  C2 as stated fails for a list that holds a record whose \<open>created_at\<close> is a truthy value
  other than a timestamp, here a text: line 57 calls \<^verbatim>\<open>isoformat\<close> on it, the
  AttributeError is caught, and the answer is HTTP 500 instead of a sorted page.
\<close>

theorem text_dated_record_no_page_counterexample:
  "list_messages_docs [sample_doc ''a'' 1, text_dated_doc] =
     Inl (AttributeError ([CHR 0x27] @ ''str'' @ [CHR 0x27] @ '' object has no attribute '' @
                          [CHR 0x27] @ ''isoformat'' @ [CHR 0x27])) \<and>
   list_messages (Inr text_dated_store) 50 =
     Inl (HTTPException 500 ([CHR 0x27] @ ''str'' @ [CHR 0x27] @ '' object has no attribute '' @
                          [CHR 0x27] @ ''isoformat'' @ [CHR 0x27]))"
  by code_simp

text \<open>
  C2, amended. For every list of records fetched from the store in which each
  \<open>created_at\<close> is a timestamp, or is missing or falsy, the handler answers with exactly
  the normalized records of that page, each carrying the ISO text of its record's
  timestamp as \<open>created_at\<close> (none when there is no timestamp), sorted ascending by that
  text: of two entries that have one, the earlier in the page has the smaller or equal
  text. An entry without timestamp has the sort key \<open>""\<close> and stands before every entry
  that has one.
\<close>

theorem list_messages_docs_sorted:
  assumes "\<forall>d\<in>set docs. timestamp_or_falsy d"
  shows "\<exists>ms r. map normalize_doc docs = map Inr ms \<and>
           map o_created_at ms =
             map (\<lambda>d. case get d ''created_at'' of
                         PDatetime t \<Rightarrow> Some (isoformat t) | _ \<Rightarrow> None) docs \<and>
           list_messages_docs docs = Inr r \<and>
           mset (items r) = mset ms \<and>
           sorted (map created_key (items r)) \<and>
           sorted (map (\<lambda>x. case o_created_at x of None \<Rightarrow> [] | Some s \<Rightarrow> s) (items r)) \<and>
           (\<forall>i j s t. i < j \<and> j < length (items r) \<and>
                  o_created_at (items r ! i) = Some s \<and> o_created_at (items r ! j) = Some t
                  \<longrightarrow> s \<le> t) \<and>
           (\<forall>x\<in>set (items r). o_created_at x = None \<longrightarrow> created_key x = []) \<and>
           (\<forall>i j. i < length (items r) \<and> j < length (items r) \<and>
                  o_created_at (items r ! i) = None \<and> o_created_at (items r ! j) \<noteq> None
                  \<longrightarrow> i < j)"
proof -
  from assms obtain ms where ms: "map normalize_doc docs = map Inr ms"
    using normalize_all_total by blast
  then have nd: "normalize_docs docs [] = Inr ms" by (simp add: normalize_docs_Inr)
  have stamps: "map o_created_at ms =
             map (\<lambda>d. case get d ''created_at'' of
                         PDatetime t \<Rightarrow> Some (isoformat t) | _ \<Rightarrow> None) docs"
    using ms by (rule normalize_all_created_at)
  define r where "r = \<lparr> items = sort_key created_key ms \<rparr>"
  have res: "list_messages_docs docs = Inr r" by (simp add: list_messages_docs_def nd r_def)
  have srt: "sorted (map created_key (items r))" by (simp add: r_def)
  have keyfun: "created_key = (\<lambda>x. case o_created_at x of None \<Rightarrow> [] | Some s \<Rightarrow> s)"
    by (rule ext) (rule created_key_eq)
  from srt have srt': "sorted (map (\<lambda>x. case o_created_at x of None \<Rightarrow> [] | Some s \<Rightarrow> s) (items r))"
    by (simp only: keyfun)
  have pairs: "\<forall>i j s t. i < j \<and> j < length (items r) \<and>
                  o_created_at (items r ! i) = Some s \<and> o_created_at (items r ! j) = Some t
                  \<longrightarrow> s \<le> t"
  proof (intro allI impI)
    fix i j s t
    assume a: "i < j \<and> j < length (items r) \<and>
                  o_created_at (items r ! i) = Some s \<and> o_created_at (items r ! j) = Some t"
    then have "map created_key (items r) ! i \<le> map created_key (items r) ! j"
      using srt by (intro sorted_nth_mono) simp_all
    with a show "s \<le> t" by (simp add: created_key_Some)
  qed
  have perm: "mset (items r) = mset ms" by (simp add: r_def)
  have iso: "\<forall>x\<in>set (items r). o_created_at x = None \<or> (\<exists>t. o_created_at x = Some (isoformat t))"
  proof
    fix x assume "x \<in> set (items r)"
    then have "x \<in> set ms" by (simp add: r_def)
    then have "Inr x \<in> set (map normalize_doc docs)" by (simp add: ms)
    then obtain d where "normalize_doc d = Inr x" by auto
    then show "o_created_at x = None \<or> (\<exists>t. o_created_at x = Some (isoformat t))"
      by (rule normalize_doc_created_at)
  qed
  have first: "\<forall>i j. i < length (items r) \<and> j < length (items r) \<and>
                  o_created_at (items r ! i) = None \<and> o_created_at (items r ! j) \<noteq> None
                  \<longrightarrow> i < j"
    using sorted_none_first [OF srt iso] by blast
  have nokey: "\<forall>x\<in>set (items r). o_created_at x = None \<longrightarrow> created_key x = []"
    by (simp add: created_key_None)
  from ms stamps res perm srt srt' pairs nokey first show ?thesis by blast
qed

theorem list_messages_docs_sorted_witness:
  "timestamp_or_falsy (sample_doc ''b'' 2) \<and> timestamp_or_falsy undated_doc \<and>
   timestamp_or_falsy (sample_doc ''a'' 1) \<and>
   map o_created_at
     (items (projr (list_messages_docs [sample_doc ''b'' 2, undated_doc, sample_doc ''a'' 1]))) =
     [None, Some ''2024-05-17T09:30:01'', Some ''2024-05-17T09:30:02''] \<and>
   (\<exists>ms r. map normalize_doc [sample_doc ''b'' 2, undated_doc, sample_doc ''a'' 1] = map Inr ms \<and>
      map o_created_at ms =
        map (\<lambda>d. case get d ''created_at'' of
                    PDatetime t \<Rightarrow> Some (isoformat t) | _ \<Rightarrow> None)
          [sample_doc ''b'' 2, undated_doc, sample_doc ''a'' 1] \<and>
      list_messages_docs [sample_doc ''b'' 2, undated_doc, sample_doc ''a'' 1] = Inr r \<and>
      mset (items r) = mset ms \<and>
      sorted (map (\<lambda>x. case o_created_at x of None \<Rightarrow> [] | Some s \<Rightarrow> s) (items r)))"
proof -
  have b: "timestamp_or_falsy (sample_doc ''b'' 2)" by code_simp
  have u: "timestamp_or_falsy undated_doc" by code_simp
  have a: "timestamp_or_falsy (sample_doc ''a'' 1)" by code_simp
  have h: "\<forall>d\<in>set [sample_doc ''b'' 2, undated_doc, sample_doc ''a'' 1]. timestamp_or_falsy d"
    using a b u by simp
  have page: "map o_created_at
     (items (projr (list_messages_docs [sample_doc ''b'' 2, undated_doc, sample_doc ''a'' 1]))) =
     [None, Some ''2024-05-17T09:30:01'', Some ''2024-05-17T09:30:02'']"
    by code_simp
  from list_messages_docs_sorted [OF h]
  have ex: "\<exists>ms r. map normalize_doc [sample_doc ''b'' 2, undated_doc, sample_doc ''a'' 1] = map Inr ms \<and>
      map o_created_at ms =
        map (\<lambda>d. case get d ''created_at'' of
                    PDatetime t \<Rightarrow> Some (isoformat t) | _ \<Rightarrow> None)
          [sample_doc ''b'' 2, undated_doc, sample_doc ''a'' 1] \<and>
      list_messages_docs [sample_doc ''b'' 2, undated_doc, sample_doc ''a'' 1] = Inr r \<and>
      mset (items r) = mset ms \<and>
      sorted (map (\<lambda>x. case o_created_at x of None \<Rightarrow> [] | Some s \<Rightarrow> s) (items r))"
    by blast
  from b u a page ex show ?thesis by (intro conjI)
qed



lemma get_documents_no_filter:
  "get_documents (Inr colls) c [] limit = Inr (take (nat limit) (colls c))"
  by (simp add: get_documents_def matches_def)

lemma list_messages_Inr:
  "list_messages st limit = Inr r \<longleftrightarrow>
     (\<exists>colls ms. st = Inr colls \<and>
        map normalize_doc (take (nat limit) (colls ''message'')) = map Inr ms \<and>
        r = \<lparr> items = sort_key created_key ms \<rparr>)"
proof (cases st)
  case (Inl e)
  then show ?thesis by (simp add: list_messages_def get_documents_def)
next
  case (Inr colls)
  show ?thesis
  proof (cases "normalize_docs (take (nat limit) (colls ''message'')) []")
    case (Inl e)
    then have "\<not> (\<exists>ms. map normalize_doc (take (nat limit) (colls ''message'')) = map Inr ms)"
      using normalize_docs_Inr [of "take (nat limit) (colls ''message'')" "[]"] by auto
    with Inl Inr show ?thesis
      by (simp add: list_messages_def get_documents_no_filter list_messages_docs_def)
  next
    case (Inr out)
    then have "map normalize_doc (take (nat limit) (colls ''message'')) = map Inr out"
      by (simp add: normalize_docs_Inr)
    with Inr \<open>st = Inr colls\<close> show ?thesis
      by (auto simp: list_messages_def get_documents_no_filter list_messages_docs_def
               inj_map_eq_map)
  qed
qed

lemma map_Inr_eq: "map Inr xs = map Inr ys \<longleftrightarrow> xs = ys"
  by (simp add: inj_map_eq_map)

text \<open>
  C1. The limit is applied by the store query and the sort comes afterwards: the page is
  the first \<open>limit\<close> records of the collection in the store's own order, sorted by
  \<open>created_at\<close>; a record at a native position from \<open>limit\<close> on is not in the page,
  however recent it is. So the page need not contain the most recent messages: there is a
  store whose native order is not chronological and a limit for which the page misses one
  of the \<open>limit\<close> most recent messages.
\<close>

theorem limit_applied_before_sort:
  assumes ok: "list_messages (Inr colls) limit = Inr r"
    and whole: "map normalize_doc (colls ''message'') = map Inr ms"
    and dist: "distinct ms"
  shows "items r = sort_key created_key (take (nat limit) ms) \<and>
         (\<forall>k. nat limit \<le> k \<and> k < length ms \<longrightarrow> ms ! k \<notin> set (items r)) \<and>
         (\<exists>colls' limit' r' ms'.
            map normalize_doc (colls' ''message'') = map Inr ms' \<and>
            \<not> sorted (map created_key ms') \<and>
            list_messages (Inr colls') limit' = Inr r' \<and>
            \<not> set (most_recent_page ms' limit') \<subseteq> set (items r'))"
proof -
  from ok obtain page where
    page: "map normalize_doc (take (nat limit) (colls ''message'')) = map Inr page"
    and r: "r = \<lparr> items = sort_key created_key page \<rparr>"
    by (auto simp: list_messages_Inr)
  have "map Inr page = take (nat limit) (map normalize_doc (colls ''message''))"
    using page by (simp add: take_map)
  also have "\<dots> = map Inr (take (nat limit) ms)" by (simp add: whole take_map)
  finally have eq: "page = take (nat limit) ms" by (simp add: map_Inr_eq)
  have sorted_page: "items r = sort_key created_key (take (nat limit) ms)"
    by (simp add: r eq)
  have omitted: "\<forall>k. nat limit \<le> k \<and> k < length ms \<longrightarrow> ms ! k \<notin> set (items r)"
  proof (intro allI impI notI)
    fix k assume k: "nat limit \<le> k \<and> k < length ms" and "ms ! k \<in> set (items r)"
    then have "ms ! k \<in> set (take (nat limit) ms)" by (simp add: sorted_page)
    then obtain i where i: "i < length (take (nat limit) ms)" "take (nat limit) ms ! i = ms ! k"
      by (auto simp: in_set_conv_nth)
    then have "i < nat limit" "i < length ms" "ms ! i = ms ! k" by simp_all
    with dist k have "i = k" by (simp add: nth_eq_iff_index_eq)
    with \<open>i < nat limit\<close> k show False by simp
  qed
  have n: "map normalize_doc (shuffled_store ''message'') =
           map Inr [sample_out ''b'' ''2024-05-17T09:30:02'', sample_out ''a'' ''2024-05-17T09:30:01'',
                    sample_out ''c'' ''2024-05-17T09:30:03'']"
    by code_simp
  have u: "\<not> sorted (map created_key
              [sample_out ''b'' ''2024-05-17T09:30:02'', sample_out ''a'' ''2024-05-17T09:30:01'',
               sample_out ''c'' ''2024-05-17T09:30:03''])"
    by code_simp
  have l: "list_messages (Inr shuffled_store) 2 =
           Inr \<lparr> items = [sample_out ''a'' ''2024-05-17T09:30:01'',
                          sample_out ''b'' ''2024-05-17T09:30:02''] \<rparr>"
    by code_simp
  have m: "\<not> set (most_recent_page
              [sample_out ''b'' ''2024-05-17T09:30:02'', sample_out ''a'' ''2024-05-17T09:30:01'',
               sample_out ''c'' ''2024-05-17T09:30:03''] 2)
            \<subseteq> set (items \<lparr> items = [sample_out ''a'' ''2024-05-17T09:30:01'',
                          sample_out ''b'' ''2024-05-17T09:30:02''] \<rparr>)"
    by code_simp
  from n u l m have ex: "\<exists>colls' limit' r' ms'.
            map normalize_doc (colls' ''message'') = map Inr ms' \<and>
            \<not> sorted (map created_key ms') \<and>
            list_messages (Inr colls') limit' = Inr r' \<and>
            \<not> set (most_recent_page ms' limit') \<subseteq> set (items r')"
    by blast
  from sorted_page omitted ex show ?thesis by blast
qed

theorem limit_applied_before_sort_witness:
  "list_messages (Inr shuffled_store) 2 =
     Inr \<lparr> items = [sample_out ''a'' ''2024-05-17T09:30:01'',
                    sample_out ''b'' ''2024-05-17T09:30:02''] \<rparr> \<and>
   map normalize_doc (shuffled_store ''message'') =
     map Inr [sample_out ''b'' ''2024-05-17T09:30:02'', sample_out ''a'' ''2024-05-17T09:30:01'',
              sample_out ''c'' ''2024-05-17T09:30:03''] \<and>
   distinct [sample_out ''b'' ''2024-05-17T09:30:02'', sample_out ''a'' ''2024-05-17T09:30:01'',
             sample_out ''c'' ''2024-05-17T09:30:03''] \<and>
   sample_out ''c'' ''2024-05-17T09:30:03'' \<notin>
     set (items \<lparr> items = [sample_out ''a'' ''2024-05-17T09:30:01'',
                          sample_out ''b'' ''2024-05-17T09:30:02''] \<rparr>)"
proof -
  let ?ms = "[sample_out ''b'' ''2024-05-17T09:30:02'', sample_out ''a'' ''2024-05-17T09:30:01'',
              sample_out ''c'' ''2024-05-17T09:30:03'']"
  let ?r = "\<lparr> items = [sample_out ''a'' ''2024-05-17T09:30:01'',
                       sample_out ''b'' ''2024-05-17T09:30:02''] \<rparr>"
  have ok: "list_messages (Inr shuffled_store) 2 = Inr ?r" by code_simp
  have whole: "map normalize_doc (shuffled_store ''message'') = map Inr ?ms" by code_simp
  have dist: "distinct ?ms" by (simp add: sample_out_def)
  from limit_applied_before_sort [OF ok whole dist]
  have beyond: "\<forall>k. nat 2 \<le> k \<and> k < length ?ms \<longrightarrow> ?ms ! k \<notin> set (items ?r)" by blast
  have "?ms ! 2 \<notin> set (items ?r)" using beyond [rule_format, of 2] by simp
  then have "sample_out ''c'' ''2024-05-17T09:30:03'' \<notin> set (items ?r)" by simp
  with ok whole dist show ?thesis by blast
qed

text \<open>
  C3 as stated fails for a negative limit: the call returns a list, and no list has a
  length at most \<open>-1\<close>.
\<close>

theorem listing_negative_limit_counterexample:
  "get_api_messages (Inr empty_store) (Some (- 1)) = Inr \<lparr> items = [] \<rparr> \<and>
   \<not> int (length (items (projr (get_api_messages (Inr empty_store) (Some (- 1))))))
       \<le> limit_or_default (Some (- 1))"
proof -
  have "get_api_messages (Inr empty_store) (Some (- 1)) = Inr \<lparr> items = [] \<rparr>"
    by (simp add: get_api_messages_def limit_or_default_def list_messages_def
          get_documents_no_filter empty_store_def list_messages_docs_def)
  then show ?thesis by (simp add: limit_or_default_def)
qed

text \<open>
  C3, amended. For every call with a limit that is not negative (50 when the parameter is
  absent), the returned \<open>items\<close> list has length at most the limit.
\<close>

theorem listing_length_bounded:
  assumes "get_api_messages st limit = Inr r" and "0 \<le> limit_or_default limit"
  shows "int (length (items r)) \<le> limit_or_default limit \<and>
         (limit = None \<longrightarrow> length (items r) \<le> 50)"
proof -
  from assms(1) have "list_messages st (limit_or_default limit) = Inr r"
    by (simp add: get_api_messages_def split: sum.splits)
  then obtain colls ms where
    ms: "map normalize_doc (take (nat (limit_or_default limit)) (colls ''message'')) = map Inr ms"
    and r: "r = \<lparr> items = sort_key created_key ms \<rparr>"
    by (auto simp: list_messages_Inr)
  from ms have "length ms = length (take (nat (limit_or_default limit)) (colls ''message''))"
    by (metis length_map)
  then have "length (items r) \<le> nat (limit_or_default limit)" by (simp add: r)
  with assms(2) show ?thesis by (auto simp: limit_or_default_def)
qed

theorem listing_length_bounded_witness:
  "get_api_messages (Inr shuffled_store) None =
     Inr \<lparr> items = [sample_out ''a'' ''2024-05-17T09:30:01'',
                    sample_out ''b'' ''2024-05-17T09:30:02'',
                    sample_out ''c'' ''2024-05-17T09:30:03''] \<rparr> \<and>
   0 \<le> limit_or_default None \<and>
   length (items \<lparr> items = [sample_out ''a'' ''2024-05-17T09:30:01'',
                    sample_out ''b'' ''2024-05-17T09:30:02'',
                    sample_out ''c'' ''2024-05-17T09:30:03''] \<rparr>) \<le> 50"
proof -
  have ok: "get_api_messages (Inr shuffled_store) None =
     Inr \<lparr> items = [sample_out ''a'' ''2024-05-17T09:30:01'',
                    sample_out ''b'' ''2024-05-17T09:30:02'',
                    sample_out ''c'' ''2024-05-17T09:30:03''] \<rparr>"
    by code_simp
  have nn: "0 \<le> limit_or_default None" by (simp add: limit_or_default_def)
  from listing_length_bounded [OF ok nn] ok nn show ?thesis by blast
qed

section \<open>Facts about the ingestion\<close>












lemma save_upload_Some:
  "save_upload en fs (Some f) = Inr (file_url, content_type, fs') \<longleftrightarrow>
     write_error en = None \<and>
     file_url = Some (''/uploads/'' @ stored_name en f) \<and>
     content_type = uf_content_type f \<and>
     fs' = fs(join (UPLOAD_DIR en) (stored_name en f) \<mapsto> uf_content f)"
  by (auto simp: save_upload_def write_file_def Let_def split: option.splits)

lemma save_upload_None: "save_upload en fs None = Inr (None, None, fs)"
  by (simp add: save_upload_def)

















lemma build_message_Inr:
  "build_message en fs username text file = Inr (msg, fs') \<longleftrightarrow>
     (\<exists>file_url content_type. save_upload en fs file = Inr (file_url, content_type, fs') \<and>
        msg = Message username text file_url content_type)"
  by (auto simp: build_message_def split: sum.splits)


lemma create_message_Inr:
  "create_message en w username text file = (Inr r, w') \<longleftrightarrow>
     (\<exists>msg fs' colls. build_message en (files w) username text file = Inr (msg, fs') \<and>
        db w = Inr colls \<and> r = \<lparr> r_id = new_id en, r_ok = True \<rparr> \<and>
        w' = \<lparr> files = fs',
               db = Inr (colls(''message'' := colls ''message'' @ [message_doc en msg])) \<rparr>)"
  by (auto simp: create_message_def create_document_def split: sum.splits prod.splits)


lemma message_doc_fields:
  "get (message_doc en msg) ''_id'' = PObjectId (new_id en)"
  "get (message_doc en msg) ''username'' = PStr (m_username msg)"
  "get (message_doc en msg) ''text'' = opt_val (m_text msg)"
  "get (message_doc en msg) ''file_url'' = opt_val (m_file_url msg)"
  "get (message_doc en msg) ''content_type'' = opt_val (m_content_type msg)"
  "get (message_doc en msg) ''created_at'' = PDatetime (now en)"
  by (simp_all add: message_doc_def get_def)

lemma post_api_messages_Inr:
  "post_api_messages en w form = (Inr r, w') \<longleftrightarrow>
     (\<exists>u. f_username form = Some u \<and> u \<noteq> [] \<and>
        create_message en w u (form_value (f_text form)) (f_file form) = (Inr r, w'))"
  by (auto simp: post_api_messages_def form_value_def split: option.splits prod.splits sum.splits if_splits)

lemma post_api_messages_no_username:
  "form_value (f_username form) = None \<Longrightarrow>
     post_api_messages en w form = (Inl (RequestValidationError [''body'', ''username'']), w)"
  by (simp add: post_api_messages_def)


text \<open>
  C5. The username is required and must not be empty: every submission that is accepted
  has a username that is present and not the empty string, and the message it persists
  carries that username; a submission whose username is missing or empty is answered by
  the request validation error for \<open>username\<close>, and neither a file nor a message is stored.
\<close>

theorem username_required_nonempty:
  "(post_api_messages en w form = (Inr r, w') \<longrightarrow>
      (\<exists>u colls d. f_username form = Some u \<and> u \<noteq> [] \<and> db w = Inr colls \<and>
         db w' = Inr (colls(''message'' := colls ''message'' @ [d])) \<and>
         get d ''username'' = PStr u)) \<and>
   (f_username form = None \<or> f_username form = Some [] \<longrightarrow>
      post_api_messages en w form =
        (Inl (RequestValidationError [''body'', ''username'']), w))"
proof (intro conjI impI)
  assume "post_api_messages en w form = (Inr r, w')"
  then obtain u where u: "f_username form = Some u" "u \<noteq> []"
    and cm: "create_message en w u (form_value (f_text form)) (f_file form) = (Inr r, w')"
    by (auto simp: post_api_messages_Inr)
  from cm obtain msg fs' colls where
    bm: "build_message en (files w) u (form_value (f_text form)) (f_file form) = Inr (msg, fs')"
    and colls: "db w = Inr colls"
    and w': "w' = \<lparr> files = fs',
               db = Inr (colls(''message'' := colls ''message'' @ [message_doc en msg])) \<rparr>"
    by (auto simp: create_message_Inr)
  from bm have "m_username msg = u" by (auto simp: build_message_Inr Message_def)
  then have "get (message_doc en msg) ''username'' = PStr u" by (simp add: message_doc_fields)
  moreover from w' have "db w' = Inr (colls(''message'' := colls ''message'' @ [message_doc en msg]))"
    by simp
  ultimately show "\<exists>u colls d. f_username form = Some u \<and> u \<noteq> [] \<and> db w = Inr colls \<and>
         db w' = Inr (colls(''message'' := colls ''message'' @ [d])) \<and>
         get d ''username'' = PStr u"
    using u colls by blast
next
  assume "f_username form = None \<or> f_username form = Some []"
  then have "form_value (f_username form) = None" by (auto simp: form_value_def)
  then show "post_api_messages en w form =
        (Inl (RequestValidationError [''body'', ''username'']), w)"
    by (rule post_api_messages_no_username)
qed

text \<open>
  C6. A submission with a username and neither text nor file is accepted whenever the
  store is available: the handler raises nothing, answers with the new identifier, and
  appends one message whose \<open>text\<close> and \<open>file_url\<close> are both absent.
\<close>

theorem message_without_text_or_file_accepted:
  assumes "db w = Inr colls"
  shows "create_message en w username None None =
           (Inr \<lparr> r_id = new_id en, r_ok = True \<rparr>,
            w \<lparr> db := Inr (colls(''message'' := colls ''message'' @
                           [message_doc en (Message username None None None)])) \<rparr>) \<and>
         m_text (Message username None None None) = None \<and>
         m_file_url (Message username None None None) = None \<and>
         get (message_doc en (Message username None None None)) ''text'' = PNone \<and>
         get (message_doc en (Message username None None None)) ''file_url'' = PNone"
  using assms
  by (simp add: create_message_def build_message_def save_upload_None create_document_def
        message_doc_fields Message_def opt_val_def)

text \<open>
  C7. On success the handler has persisted exactly one message, built from the given
  \<open>username\<close> and \<open>text\<close> and the \<open>file_url\<close> and \<open>content_type\<close> gathered from the upload:
  the message collection is the old one followed by that one record and no other
  collection changes; the answer is the identifier the store assigned to the record,
  with \<open>ok\<close> true.
\<close>

theorem create_message_persists_one:
  assumes "create_message en w username text file = (Inr r, w')"
  shows "\<exists>colls file_url content_type fs' d.
           save_upload en (files w) file = Inr (file_url, content_type, fs') \<and>
           d = message_doc en (Message username text file_url content_type) \<and>
           db w = Inr colls \<and>
           db w' = Inr (colls(''message'' := colls ''message'' @ [d])) \<and>
           files w' = fs' \<and>
           r = \<lparr> r_id = new_id en, r_ok = True \<rparr> \<and>
           str (get d ''_id'') = r_id r \<and>
           get d ''username'' = PStr username \<and> get d ''text'' = opt_val text \<and>
           get d ''file_url'' = opt_val file_url \<and>
           get d ''content_type'' = opt_val content_type"
proof -
  from assms obtain msg fs' colls where
    bm: "build_message en (files w) username text file = Inr (msg, fs')"
    and colls: "db w = Inr colls"
    and r: "r = \<lparr> r_id = new_id en, r_ok = True \<rparr>"
    and w': "w' = \<lparr> files = fs',
               db = Inr (colls(''message'' := colls ''message'' @ [message_doc en msg])) \<rparr>"
    by (auto simp: create_message_Inr)
  from bm obtain file_url content_type where
    su: "save_upload en (files w) file = Inr (file_url, content_type, fs')"
    and msg: "msg = Message username text file_url content_type"
    by (auto simp: build_message_Inr)
  let ?d = "message_doc en (Message username text file_url content_type)"
  have fields: "str (get ?d ''_id'') = r_id r" "get ?d ''username'' = PStr username"
    "get ?d ''text'' = opt_val text" "get ?d ''file_url'' = opt_val file_url"
    "get ?d ''content_type'' = opt_val content_type"
    by (simp_all add: message_doc_fields Message_def r)
  from w' msg have dbw: "db w' = Inr (colls(''message'' := colls ''message'' @ [?d]))"
    and fw: "files w' = fs'" by simp_all
  from su colls dbw fw r fields show ?thesis by blast
qed

lemma sample_create_message:
  "create_message sample_env sample_world ''alice'' (Some ''hi'') None =
     (Inr sample_response, sample_world_after)"
  by (simp add: create_message_def build_message_def save_upload_None create_document_def
        sample_world_def sample_world_after_def sample_response_def sample_env_def)

lemma sample_post:
  "post_api_messages sample_env sample_world sample_form = (Inr sample_response, sample_world_after)"
  by (simp add: post_api_messages_def form_value_def sample_form_def sample_create_message)

theorem username_required_nonempty_witness:
  "post_api_messages sample_env sample_world sample_form = (Inr sample_response, sample_world_after) \<and>
   (\<exists>u colls d. f_username sample_form = Some u \<and> u \<noteq> [] \<and> db sample_world = Inr colls \<and>
      db sample_world_after = Inr (colls(''message'' := colls ''message'' @ [d])) \<and>
      get d ''username'' = PStr u) \<and>
   f_username empty_username_form = Some [] \<and>
   post_api_messages sample_env sample_world empty_username_form =
     (Inl (RequestValidationError [''body'', ''username'']), sample_world)"
proof -
  have e: "f_username empty_username_form = Some []" by (simp add: empty_username_form_def)
  from username_required_nonempty
         [of sample_env sample_world sample_form sample_response sample_world_after]
  have acc: "\<exists>u colls d. f_username sample_form = Some u \<and> u \<noteq> [] \<and> db sample_world = Inr colls \<and>
      db sample_world_after = Inr (colls(''message'' := colls ''message'' @ [d])) \<and>
      get d ''username'' = PStr u"
    using sample_post by blast
  from username_required_nonempty [of sample_env sample_world empty_username_form]
  have rej: "post_api_messages sample_env sample_world empty_username_form =
     (Inl (RequestValidationError [''body'', ''username'']), sample_world)"
    using e by blast
  from sample_post acc e rej show ?thesis by blast
qed

theorem message_without_text_or_file_accepted_witness:
  "db sample_world = Inr empty_store \<and>
   create_message sample_env sample_world ''alice'' None None =
     (Inr \<lparr> r_id = new_id sample_env, r_ok = True \<rparr>,
      sample_world \<lparr> db := Inr (empty_store(''message'' := empty_store ''message'' @
                     [message_doc sample_env (Message ''alice'' None None None)])) \<rparr>) \<and>
   get (message_doc sample_env (Message ''alice'' None None None)) ''text'' = PNone \<and>
   get (message_doc sample_env (Message ''alice'' None None None)) ''file_url'' = PNone"
proof -
  have av: "db sample_world = Inr empty_store" by (simp add: sample_world_def)
  from message_without_text_or_file_accepted [OF av, of sample_env "''alice''"] av
  show ?thesis by blast
qed

theorem create_message_persists_one_witness:
  "create_message sample_env sample_world ''alice'' (Some ''hi'') None =
     (Inr sample_response, sample_world_after) \<and>
   (\<exists>colls d. db sample_world = Inr colls \<and>
      db sample_world_after = Inr (colls(''message'' := colls ''message'' @ [d])) \<and>
      str (get d ''_id'') = r_id sample_response \<and>
      get d ''username'' = PStr ''alice'' \<and> get d ''text'' = opt_val (Some ''hi''))"
proof -
  from create_message_persists_one [OF sample_create_message]
  have "\<exists>colls d. db sample_world = Inr colls \<and>
      db sample_world_after = Inr (colls(''message'' := colls ''message'' @ [d])) \<and>
      str (get d ''_id'') = r_id sample_response \<and>
      get d ''username'' = PStr ''alice'' \<and> get d ''text'' = opt_val (Some ''hi'')"
    by blast
  with sample_create_message show ?thesis by blast
qed








lemma create_message_no_file_files:
  "files (snd (create_message en w username text None)) = files w"
  by (simp add: create_message_def build_message_def save_upload_None create_document_def
           split: sum.splits)

text \<open>
  C9. Without a file the handler writes no file: the files on disk after the call are
  those before it, and the message handed to the store, which on success is the one
  record appended, has \<open>file_url\<close> and \<open>content_type\<close> absent. For every call, the two
  fields are set only when a file was uploaded (then \<open>file_url\<close> is set and
  \<open>content_type\<close> is the upload's declared type), and \<open>username\<close> and \<open>text\<close> of the message
  are the given ones whether or not there is a file.
\<close>

theorem no_file_no_write:
  "build_message en fs username text None = Inr (Message username text None None, fs) \<and>
   m_file_url (Message username text None None) = None \<and>
   m_content_type (Message username text None None) = None \<and>
   files (snd (create_message en w username text None)) = files w \<and>
   (create_message en w username text None = (Inr r, w') \<longrightarrow>
      (\<exists>colls. db w = Inr colls \<and>
         db w' = Inr (colls(''message'' := colls ''message'' @
                        [message_doc en (Message username text None None)]))) \<and>
      get (message_doc en (Message username text None None)) ''file_url'' = PNone \<and>
      get (message_doc en (Message username text None None)) ''content_type'' = PNone) \<and>
   (build_message en fs username text file = Inr (msg, fs') \<longrightarrow>
      m_username msg = username \<and> m_text msg = text \<and>
      (m_file_url msg \<noteq> None \<or> m_content_type msg \<noteq> None \<longrightarrow> file \<noteq> None) \<and>
      (\<forall>f. file = Some f \<longrightarrow>
         m_file_url msg = Some (''/uploads/'' @ stored_name en f) \<and>
         m_content_type msg = uf_content_type f))"
proof -
  have c1: "build_message en fs username text None = Inr (Message username text None None, fs)"
    by (simp add: build_message_def save_upload_None)
  have c2: "m_file_url (Message username text None None) = None"
    and c3: "m_content_type (Message username text None None) = None"
    by (simp_all add: Message_def)
  have c4: "files (snd (create_message en w username text None)) = files w"
    by (rule create_message_no_file_files)
  have c5: "create_message en w username text None = (Inr r, w') \<longrightarrow>
      (\<exists>colls. db w = Inr colls \<and>
         db w' = Inr (colls(''message'' := colls ''message'' @
                        [message_doc en (Message username text None None)]))) \<and>
      get (message_doc en (Message username text None None)) ''file_url'' = PNone \<and>
      get (message_doc en (Message username text None None)) ''content_type'' = PNone"
    by (auto simp: create_message_Inr build_message_def save_upload_None message_doc_fields
          Message_def opt_val_def)
  have c6: "build_message en fs username text file = Inr (msg, fs') \<longrightarrow>
      m_username msg = username \<and> m_text msg = text \<and>
      (m_file_url msg \<noteq> None \<or> m_content_type msg \<noteq> None \<longrightarrow> file \<noteq> None) \<and>
      (\<forall>f. file = Some f \<longrightarrow>
         m_file_url msg = Some (''/uploads/'' @ stored_name en f) \<and>
         m_content_type msg = uf_content_type f)"
  proof
    assume bm: "build_message en fs username text file = Inr (msg, fs')"
    then obtain file_url content_type where
      su: "save_upload en fs file = Inr (file_url, content_type, fs')"
      and msg: "msg = Message username text file_url content_type"
      by (auto simp: build_message_Inr)
    from msg have u: "m_username msg = username" and t: "m_text msg = text"
      by (simp_all add: Message_def)
    have only: "m_file_url msg \<noteq> None \<or> m_content_type msg \<noteq> None \<longrightarrow> file \<noteq> None"
    proof (cases "file")
      case None
      with su msg show ?thesis by (simp add: save_upload_None Message_def)
    next
      case (Some f)
      then show ?thesis by simp
    qed
    have set: "\<forall>f. file = Some f \<longrightarrow>
         m_file_url msg = Some (''/uploads/'' @ stored_name en f) \<and>
         m_content_type msg = uf_content_type f"
      using su msg by (auto simp: save_upload_Some Message_def)
    from u t only set show "m_username msg = username \<and> m_text msg = text \<and>
      (m_file_url msg \<noteq> None \<or> m_content_type msg \<noteq> None \<longrightarrow> file \<noteq> None) \<and>
      (\<forall>f. file = Some f \<longrightarrow>
         m_file_url msg = Some (''/uploads/'' @ stored_name en f) \<and>
         m_content_type msg = uf_content_type f)"
      by blast
  qed
  show ?thesis
    by (intro conjI) (rule c1 c2 c3 c4 c5 c6)+
qed

lemma sample_build_with_file:
  "build_message sample_env Map.empty ''alice'' (Some ''hi'') (Some sample_upload) =
     Inr (Message ''alice'' (Some ''hi'') (Some (''/uploads/'' @ stored_name sample_env sample_upload))
            (uf_content_type sample_upload),
          [join (UPLOAD_DIR sample_env) (stored_name sample_env sample_upload) \<mapsto>
             uf_content sample_upload])"
proof -
  have w: "write_error sample_env = None" by (simp add: sample_env_def)
  show ?thesis
    by (simp add: build_message_def save_upload_def write_file_def Let_def w)
qed

theorem no_file_no_write_witness:
  "create_message sample_env sample_world ''alice'' (Some ''hi'') None =
     (Inr sample_response, sample_world_after) \<and>
   files sample_world_after = files sample_world \<and>
   (\<exists>colls. db sample_world = Inr colls \<and>
      db sample_world_after = Inr (colls(''message'' := colls ''message'' @
                     [message_doc sample_env (Message ''alice'' (Some ''hi'') None None)]))) \<and>
   build_message sample_env Map.empty ''alice'' (Some ''hi'') (Some sample_upload) =
     Inr (Message ''alice'' (Some ''hi'') (Some (''/uploads/'' @ stored_name sample_env sample_upload))
            (uf_content_type sample_upload),
          [join (UPLOAD_DIR sample_env) (stored_name sample_env sample_upload) \<mapsto>
             uf_content sample_upload]) \<and>
   m_username (Message ''alice'' (Some ''hi'') (Some (''/uploads/'' @ stored_name sample_env sample_upload))
            (uf_content_type sample_upload)) = ''alice'' \<and>
   m_file_url (Message ''alice'' (Some ''hi'') (Some (''/uploads/'' @ stored_name sample_env sample_upload))
            (uf_content_type sample_upload)) \<noteq> None \<and>
   Some sample_upload \<noteq> None"
proof -
  note a = no_file_no_write
      [of sample_env _ "''alice''" "Some ''hi''" sample_world sample_response sample_world_after]
  from a have f0: "files (snd (create_message sample_env sample_world ''alice'' (Some ''hi'') None))
                   = files sample_world"
    by blast
  with sample_create_message have f: "files sample_world_after = files sample_world" by simp
  from a sample_create_message have d: "\<exists>colls. db sample_world = Inr colls \<and>
      db sample_world_after = Inr (colls(''message'' := colls ''message'' @
                     [message_doc sample_env (Message ''alice'' (Some ''hi'') None None)]))"
    by blast
  note b = no_file_no_write
      [of sample_env Map.empty "''alice''" "Some ''hi''" _ _ _ "Some sample_upload"
          "Message ''alice'' (Some ''hi'') (Some (''/uploads/'' @ stored_name sample_env sample_upload))
            (uf_content_type sample_upload)"
          "[join (UPLOAD_DIR sample_env) (stored_name sample_env sample_upload) \<mapsto>
             uf_content sample_upload]"]
  from b sample_build_with_file have
    u: "m_username (Message ''alice'' (Some ''hi'')
            (Some (''/uploads/'' @ stored_name sample_env sample_upload))
            (uf_content_type sample_upload)) = ''alice''"
    by blast
  from b sample_build_with_file have
    v: "m_file_url (Message ''alice'' (Some ''hi'')
            (Some (''/uploads/'' @ stored_name sample_env sample_upload))
            (uf_content_type sample_upload)) \<noteq> None"
    by auto
  from sample_create_message f d sample_build_with_file u v show ?thesis by blast
qed

end
